theory Spec2Isabelle
  imports Main
begin

section \<open>JavaScript values used by the ledger\<close>

text \<open>
  The ledger of \<^verbatim>\<open>src/blockchain.js\<close> is written in JavaScript. A thrown
  exception is a value of type \<open>error\<close>: \<open>Error msg\<close> for \<^verbatim>\<open>new Error(msg)\<close>,
  \<open>TypeError msg\<close> for the engine's own \<^verbatim>\<open>TypeError\<close> (a property read on
  \<^verbatim>\<open>null\<close> or \<^verbatim>\<open>undefined\<close>).
\<close>

datatype error = Error string | TypeError string

text \<open>
  A number-valued field that the code may leave unset: \<open>Undefined\<close> is a field never
  assigned, \<open>NaN\<close> is what \<^verbatim>\<open>undefined++\<close> and \<^verbatim>\<open>undefined + 1\<close> give,
  \<open>Num n\<close> is an integer. Timestamps are integers (\<^verbatim>\<open>Date.now()\<close> is an
  integer number of milliseconds) and amounts are the integer-valued numbers; fractional
  amounts cannot be written in this model.
\<close>

datatype jsnum = Undefined | NaN | Num int

text \<open>
  The \<^verbatim>\<open>signature\<close> field of a transaction: never assigned
  (\<^verbatim>\<open>undefined\<close>), \<^verbatim>\<open>null\<close>, or a hex string.
\<close>

datatype jssig = NoSignature | NullSignature | Signature string

text \<open>An address is a string or \<^verbatim>\<open>null\<close> (\<open>None\<close>), the sender of a reward.\<close>

type_synonym address = "string option"

text \<open>A private key, as the hex string of its scalar.\<close>

type_synonym key = string

subsection \<open>Number to string\<close>

text \<open>
  \<^verbatim>\<open>s + n\<close> with a string \<open>s\<close> appends the decimal form of the integer \<open>n\<close>.
\<close>

fun digits :: "nat \<Rightarrow> string" where
  "digits n =
     (if n < 10 then [''0123456789'' ! n]
      else digits (n div 10) @ [''0123456789'' ! (n mod 10)])"

declare digits.simps [simp del]

definition toString :: "int \<Rightarrow> string" where
  "toString i = (if i < 0 then CHR ''-'' # digits (nat (- i)) else digits (nat i))"

fun num_toString :: "jsnum \<Rightarrow> string" where
  "num_toString Undefined = ''undefined''"
| "num_toString NaN = ''NaN''"
| "num_toString (Num n) = toString n"

text \<open>The postfix increment \<^verbatim>\<open>x++\<close> on a field.\<close>

fun incr :: "jsnum \<Rightarrow> jsnum" where
  "incr Undefined = NaN"
| "incr NaN = NaN"
| "incr (Num n) = Num (n + 1)"

text \<open>\<^verbatim>\<open>null + s\<close> with a string \<open>s\<close> is \<^verbatim>\<open>"null" + s\<close>.\<close>

fun address_toString :: "address \<Rightarrow> string" where
  "address_toString None = ''null''"
| "address_toString (Some a) = a"

subsection \<open>Addition and subtraction of numbers\<close>

text \<open>
  A JavaScript number is an IEEE 754 double: \<^verbatim>\<open>x + y\<close> and \<^verbatim>\<open>x - y\<close> are the
  exact result rounded to the nearest double, ties to the even significand. An integer
  is a double when it has at most 53 significant bits, so every integer up to \<open>2^53\<close>
  in absolute value is one, and beyond that only the multiples of a power of two are.
  \<open>toDouble z\<close> is the integer nearest to \<open>z\<close> that is a double: with \<open>k\<close> the
  number of bits of \<open>\<bar>z\<bar>\<close>, the nearest multiple of \<open>2^(k - 53)\<close>, and of two
  nearest ones the even multiple. (The overflow to \<^verbatim>\<open>Infinity\<close> beyond \<open>2^1024\<close> is
  not written out.)
\<close>

fun bitLength :: "nat \<Rightarrow> nat" where
  "bitLength n = (if n = 0 then 0 else Suc (bitLength (n div 2)))"

declare bitLength.simps [simp del]

definition toDouble :: "int \<Rightarrow> int" where
  "toDouble z =
     (if \<bar>z\<bar> \<le> 9007199254740992 then z
      else let q = 2 ^ (bitLength (nat \<bar>z\<bar>) - 53);
               d = z div q;
               r = z mod q
           in if 2 * r < q then d * q
              else if q < 2 * r then (d + 1) * q
              else if even d then d * q
              else (d + 1) * q)"

definition js_add :: "int \<Rightarrow> int \<Rightarrow> int" where
  "js_add x y = toDouble (x + y)"

definition js_sub :: "int \<Rightarrow> int \<Rightarrow> int" where
  "js_sub x y = toDouble (x - y)"

section \<open>The external collaborators\<close>

text \<open>
  The digest and the elliptic-curve library are not part of the repository; the code
  reaches them through four calls, which are the fields of \<open>crypto\<close>:
  \<^item> \<open>sha256 s\<close> is \<^verbatim>\<open>crypto.createHash('sha256').update(s).digest('hex')\<close>;
  \<^item> \<open>getPublic k\<close> is \<^verbatim>\<open>k.getPublic('hex')\<close>;
  \<^item> \<open>sign_toDER h k\<close> is \<^verbatim>\<open>ec.sign(h, k).toDER('hex')\<close>;
  \<^item> \<open>verify a h s\<close> is \<^verbatim>\<open>ec.keyFromPublic(a, 'hex').verify(h, s)\<close>, which
    returns a boolean or raises.
\<close>

record crypto =
  sha256 :: "string \<Rightarrow> string"
  getPublic :: "key \<Rightarrow> string"
  sign_toDER :: "string \<Rightarrow> key \<Rightarrow> string"
  verify :: "address \<Rightarrow> string \<Rightarrow> jssig \<Rightarrow> error + bool"

section \<open>Transaction\<close>

record transaction =
  sender :: address
  recipient :: string
  amount :: int
  timestamp :: int
  signature :: jssig

text \<open>
  The constructor assigns \<open>sender\<close>, \<open>recipient\<close>, \<open>amount\<close> and the clock reading
  \<^verbatim>\<open>Date.now()\<close> (the argument \<open>now\<close>); it never assigns \<open>signature\<close>.
\<close>

definition new_Transaction :: "address \<Rightarrow> string \<Rightarrow> int \<Rightarrow> int \<Rightarrow> transaction" where
  "new_Transaction s r a now =
     \<lparr>sender = s, recipient = r, amount = a, timestamp = now, signature = NoSignature\<rparr>"

definition tx_calculateHash :: "crypto \<Rightarrow> transaction \<Rightarrow> string" where
  "tx_calculateHash cr t =
     sha256 cr (address_toString (sender t) @ recipient t @ toString (amount t)
                @ toString (timestamp t))"

text \<open>
  \<open>signTransaction\<close> returns what the call raised, if anything, and the transaction as
  the call leaves it.
\<close>

definition signTransaction :: "crypto \<Rightarrow> key \<Rightarrow> transaction \<Rightarrow> (error + unit) \<times> transaction" where
  "signTransaction cr privateKey t =
     (if Some (getPublic cr privateKey) \<noteq> sender t
      then (Inl (Error ''You cannot sign transactions for other wallets!''), t)
      else let hashTx = tx_calculateHash cr t;
               sig = sign_toDER cr hashTx privateKey
           in (Inr (), t\<lparr>signature := Signature sig\<rparr>))"

text \<open>
  \<open>isValid\<close>: a \<^verbatim>\<open>null\<close> signature returns true at once; every other signature,
  the unset one included, goes to the library (the test for an empty signature only logs).
\<close>

definition isValid :: "crypto \<Rightarrow> transaction \<Rightarrow> error + bool" where
  "isValid cr t =
     (if signature t = NullSignature then Inr True
      else verify cr (sender t) (tx_calculateHash cr t) (signature t))"

section \<open>Block\<close>

record block =
  index :: jsnum
  previousHash :: string
  transactions :: "transaction list"
  timestamp :: int
  hash :: "string option"
  nonce :: jsnum

definition block_calculateHash :: "crypto \<Rightarrow> block \<Rightarrow> string" where
  "block_calculateHash cr b =
     sha256 cr (num_toString (index b) @ previousHash b @ toString (timestamp b)
                @ num_toString (nonce b))"

text \<open>
  The constructor takes \<open>previousHash\<close>, \<open>transactions\<close> and \<open>timestamp\<close>. It never
  assigns \<open>index\<close>, and it computes \<open>hash\<close> before it assigns \<open>nonce\<close>.
\<close>

definition new_Block :: "crypto \<Rightarrow> string \<Rightarrow> transaction list \<Rightarrow> int \<Rightarrow> block" where
  "new_Block cr p txs ts =
     (let b0 = \<lparr>index = Undefined, previousHash = p, transactions = txs, timestamp = ts,
                hash = None, nonce = Undefined\<rparr>;
          b1 = b0\<lparr>hash := Some (block_calculateHash cr b0)\<rparr>
      in b1\<lparr>nonce := Num 1\<rparr>)"

text \<open>
  \<open>mineBlock\<close>: the search loop. \<^verbatim>\<open>this.hash?.substring(0, difficulty)\<close> is
  \<^verbatim>\<open>undefined\<close> on an absent hash, and \<^verbatim>\<open>Array(difficulty + 1).join('1')\<close> is
  \<open>difficulty\<close> copies of the digit \<open>1\<close>. The loop has no bound: the result is
  \<open>None\<close> when it never ends.
\<close>

definition meetsTarget :: "nat \<Rightarrow> string option \<Rightarrow> bool" where
  "meetsTarget difficulty h =
     (map_option (take difficulty) h = Some (replicate difficulty CHR ''1''))"

definition mineStep :: "crypto \<Rightarrow> block \<Rightarrow> block" where
  "mineStep cr b =
     (let b1 = b\<lparr>nonce := incr (nonce b)\<rparr>
      in b1\<lparr>hash := Some (block_calculateHash cr b1)\<rparr>)"

partial_function (option) mineBlock :: "crypto \<Rightarrow> nat \<Rightarrow> block \<Rightarrow> block option" where
  "mineBlock cr difficulty b =
     (if \<not> meetsTarget difficulty (hash b) then mineBlock cr difficulty (mineStep cr b)
      else Some b)"

fun allValid :: "crypto \<Rightarrow> transaction list \<Rightarrow> error + bool" where
  "allValid cr [] = Inr True"
| "allValid cr (tx # txs) =
     (case isValid cr tx of
        Inl e \<Rightarrow> Inl e
      | Inr v \<Rightarrow> if \<not> v then Inr False else allValid cr txs)"

definition hasValidTransactions :: "crypto \<Rightarrow> block \<Rightarrow> error + bool" where
  "hasValidTransactions cr b = allValid cr (transactions b)"

section \<open>Blockchain\<close>

record blockchain =
  chain :: "block list"
  difficulty :: nat
  pendingTransactions :: "transaction list"
  mineReward :: int

definition createGenesisBlock :: "crypto \<Rightarrow> int \<Rightarrow> block" where
  "createGenesisBlock cr now = new_Block cr ''0'' [] now"

definition new_Blockchain :: "crypto \<Rightarrow> int \<Rightarrow> blockchain" where
  "new_Blockchain cr now =
     \<lparr>chain = [createGenesisBlock cr now], difficulty = 4, pendingTransactions = [],
      mineReward = 100\<rparr>"

text \<open>\<^verbatim>\<open>this.chain[this.chain.length - 1]\<close> is \<^verbatim>\<open>undefined\<close> on an empty chain.\<close>

definition getLatestBlock :: "blockchain \<Rightarrow> block option" where
  "getLatestBlock bc = (if chain bc = [] then None else Some (last (chain bc)))"

text \<open>
  \<open>minePendingTransactions\<close> reads the clock twice: \<open>now_tx\<close> in the constructor of
  the reward, \<open>now_block\<close> for the block. Reading \<^verbatim>\<open>.hash\<close> of the latest block
  raises on an empty chain; an absent hash there makes the constructor's default
  \<^verbatim>\<open>previousHash = ''\<close> apply. The outer \<open>None\<close> is a search that never ends.
\<close>

definition minePendingTransactions ::
  "crypto \<Rightarrow> int \<Rightarrow> int \<Rightarrow> string \<Rightarrow> blockchain \<Rightarrow> (error + blockchain) option" where
  "minePendingTransactions cr now_tx now_block miningRewardAddress bc =
     (let rewardTx = new_Transaction None miningRewardAddress (mineReward bc) now_tx;
          pending = pendingTransactions bc @ [rewardTx]
      in case getLatestBlock bc of
           None \<Rightarrow> Some (Inl (TypeError ''Cannot read properties of undefined''))
         | Some latest \<Rightarrow>
             (let blk = new_Block cr (case hash latest of None \<Rightarrow> [] | Some h \<Rightarrow> h)
                          pending now_block
              in case mineBlock cr (difficulty bc) blk of
                   None \<Rightarrow> None
                 | Some mined \<Rightarrow>
                     Some (Inr (bc\<lparr>chain := chain bc @ [mined],
                                    pendingTransactions := []\<rparr>))))"

text \<open>
  \<open>getBalanceOfAddress\<close>: the two nested loops; both tests are made on every
  transaction, so a transfer to oneself is subtracted and added. \<^verbatim>\<open>balance -= \<close> and
  \<^verbatim>\<open>balance += \<close> round as every operation on numbers does.
\<close>

definition balanceStep :: "address \<Rightarrow> int \<Rightarrow> transaction \<Rightarrow> int" where
  "balanceStep a balance tx =
     (let b1 = (if sender tx = a then js_sub balance (amount tx) else balance)
      in if Some (recipient tx) = a then js_add b1 (amount tx) else b1)"

definition getBalanceOfAddress :: "address \<Rightarrow> blockchain \<Rightarrow> int" where
  "getBalanceOfAddress a bc =
     foldl (\<lambda>balance blk. foldl (balanceStep a) balance (transactions blk)) 0 (chain bc)"

definition getAllTransactionForWallet :: "address \<Rightarrow> blockchain \<Rightarrow> transaction list" where
  "getAllTransactionForWallet a bc =
     foldl (\<lambda>txs blk.
              foldl (\<lambda>txs tx. if sender tx = a \<or> Some (recipient tx) = a then txs @ [tx]
                               else txs)
                txs (transactions blk))
       [] (chain bc)"

text \<open>
  \<open>addTransaction\<close>: the three gates, in the order of the code. An exception of
  \<open>isValid\<close> leaves the method before anything is written.
\<close>

definition addTransaction :: "crypto \<Rightarrow> transaction \<Rightarrow> blockchain \<Rightarrow> error + blockchain" where
  "addTransaction cr tx bc =
     (case isValid cr tx of
        Inl e \<Rightarrow> Inl e
      | Inr v \<Rightarrow>
          if \<not> v then Inr bc
          else if amount tx \<le> 0 then Inr bc
          else if getBalanceOfAddress (sender tx) bc < amount tx then Inr bc
          else Inr (bc\<lparr>pendingTransactions := pendingTransactions bc @ [tx]\<rparr>))"

text \<open>
  \<open>isChainValid\<close>. The first test compares \<^verbatim>\<open>JSON.stringify\<close> of a genesis block
  built now with that of \<^verbatim>\<open>chain[0]\<close>. The fresh block serialises
  \<open>previousHash\<close>, an empty \<open>transactions\<close>, \<open>timestamp\<close>, \<open>hash\<close> and \<open>nonce\<close>,
  and no \<open>index\<close>; the two strings are equal exactly when \<^verbatim>\<open>chain[0]\<close> has the
  same five values and no \<open>index\<close>, which is equality of the records. On an empty chain
  \<^verbatim>\<open>JSON.stringify(undefined)\<close> is \<^verbatim>\<open>undefined\<close>, which differs from the string.
  \<open>checkLinks prev bs\<close> is the loop from the block after \<open>prev\<close> on.
\<close>

fun checkLinks :: "crypto \<Rightarrow> block \<Rightarrow> block list \<Rightarrow> error + bool" where
  "checkLinks cr previousBlock [] = Inr True"
| "checkLinks cr previousBlock (currentBlock # rest) =
     (case hasValidTransactions cr currentBlock of
        Inl e \<Rightarrow> Inl e
      | Inr v \<Rightarrow>
          if \<not> v then Inr False
          else if hash currentBlock \<noteq> Some (block_calculateHash cr currentBlock) then Inr False
          else if Some (previousHash currentBlock) \<noteq> hash previousBlock then Inr False
          else checkLinks cr currentBlock rest)"

definition isChainValid :: "crypto \<Rightarrow> int \<Rightarrow> blockchain \<Rightarrow> error + bool" where
  "isChainValid cr now bc =
     (case chain bc of
        [] \<Rightarrow> Inr False
      | genesis # rest \<Rightarrow>
          if createGenesisBlock cr now \<noteq> genesis then Inr False
          else checkLinks cr genesis rest)"

section \<open>The ledger as objects in a store\<close>

text \<open>
  In the program the ledger, its two arrays, every block, the array of transactions of
  every block and every transaction are objects, and a method may write to any object
  it can reach. To state what a call leaves unchanged, the three observers are written
  once more as the program runs them, on a store of objects: a reference is a position
  in the store, \<^verbatim>\<open>new\<close> and \<^verbatim>\<open>[]\<close> append an object, an assignment to a field or
  an element replaces the object at its position. Every function takes the store and
  returns the store the call leaves, with the value or the exception. The fields of a
  \<open>BlockObj\<close> are \<open>index\<close>, \<open>previousHash\<close>, \<open>transactions\<close> (a reference to an
  array), \<open>timestamp\<close>, \<open>hash\<close> and \<open>nonce\<close>; those of a \<open>BlockchainObj\<close> are
  \<open>chain\<close>, \<open>difficulty\<close>, \<open>pendingTransactions\<close> and \<open>mineReward\<close>.
\<close>

type_synonym ref = nat

datatype obj =
    TransactionObj transaction
  | ArrayObj "ref list"
  | BlockObj jsnum string ref int "string option" jsnum
  | BlockchainObj ref nat ref int

type_synonym store = "obj list"

text \<open>
  Reading a reference that holds no object of the expected class raises, as a property
  read on \<^verbatim>\<open>undefined\<close> does.
\<close>

definition deref :: "store \<Rightarrow> ref \<Rightarrow> obj option" where
  "deref s r = (if r < length s then Some (s ! r) else None)"

definition notAnObject :: error where
  "notAnObject = TypeError ''Cannot read properties of undefined''"

text \<open>
  \<open>getBalanceOfAddress\<close> on the store: the two loops read the arrays and the
  transactions; \<open>balance\<close> is a local variable.
\<close>

fun balance_transactions :: "address \<Rightarrow> ref list \<Rightarrow> int \<Rightarrow> store \<Rightarrow> (error + int) \<times> store" where
  "balance_transactions a [] balance s = (Inr balance, s)"
| "balance_transactions a (t # ts) balance s =
     (case deref s t of
        Some (TransactionObj tx) \<Rightarrow> balance_transactions a ts (balanceStep a balance tx) s
      | _ \<Rightarrow> (Inl notAnObject, s))"

fun balance_blocks :: "address \<Rightarrow> ref list \<Rightarrow> int \<Rightarrow> store \<Rightarrow> (error + int) \<times> store" where
  "balance_blocks a [] balance s = (Inr balance, s)"
| "balance_blocks a (b # bs) balance s =
     (case deref s b of
        Some (BlockObj i p txs ts h n) \<Rightarrow>
          (case deref s txs of
             Some (ArrayObj rs) \<Rightarrow>
               (case balance_transactions a rs balance s of
                  (Inl e, s') \<Rightarrow> (Inl e, s')
                | (Inr balance', s') \<Rightarrow> balance_blocks a bs balance' s')
           | _ \<Rightarrow> (Inl notAnObject, s))
      | _ \<Rightarrow> (Inl notAnObject, s))"

definition getBalanceOfAddress_store :: "address \<Rightarrow> ref \<Rightarrow> store \<Rightarrow> (error + int) \<times> store" where
  "getBalanceOfAddress_store a this s =
     (case deref s this of
        Some (BlockchainObj c d p m) \<Rightarrow>
          (case deref s c of
             Some (ArrayObj bs) \<Rightarrow> balance_blocks a bs 0 s
           | _ \<Rightarrow> (Inl notAnObject, s))
      | _ \<Rightarrow> (Inl notAnObject, s))"

text \<open>
  \<open>getAllTransactionForWallet\<close> on the store: \<^verbatim>\<open>const txs = []\<close> allocates a new
  array, \<^verbatim>\<open>txs.push(tx)\<close> writes to it the reference of the transaction (not a
  copy), and the call returns the reference of the array.
\<close>

definition push :: "ref \<Rightarrow> ref \<Rightarrow> store \<Rightarrow> (error + unit) \<times> store" where
  "push arr x s =
     (case deref s arr of
        Some (ArrayObj xs) \<Rightarrow> (Inr (), s[arr := ArrayObj (xs @ [x])])
      | _ \<Rightarrow> (Inl notAnObject, s))"

fun wallet_transactions :: "address \<Rightarrow> ref \<Rightarrow> ref list \<Rightarrow> store \<Rightarrow> (error + unit) \<times> store" where
  "wallet_transactions a txs [] s = (Inr (), s)"
| "wallet_transactions a txs (t # ts) s =
     (case deref s t of
        Some (TransactionObj tx) \<Rightarrow>
          if sender tx = a \<or> Some (recipient tx) = a
          then (case push txs t s of
                  (Inl e, s') \<Rightarrow> (Inl e, s')
                | (Inr u, s') \<Rightarrow> wallet_transactions a txs ts s')
          else wallet_transactions a txs ts s
      | _ \<Rightarrow> (Inl notAnObject, s))"

fun wallet_blocks :: "address \<Rightarrow> ref \<Rightarrow> ref list \<Rightarrow> store \<Rightarrow> (error + unit) \<times> store" where
  "wallet_blocks a txs [] s = (Inr (), s)"
| "wallet_blocks a txs (b # bs) s =
     (case deref s b of
        Some (BlockObj i p trs ts h n) \<Rightarrow>
          (case deref s trs of
             Some (ArrayObj rs) \<Rightarrow>
               (case wallet_transactions a txs rs s of
                  (Inl e, s') \<Rightarrow> (Inl e, s')
                | (Inr u, s') \<Rightarrow> wallet_blocks a txs bs s')
           | _ \<Rightarrow> (Inl notAnObject, s))
      | _ \<Rightarrow> (Inl notAnObject, s))"

definition getAllTransactionForWallet_store ::
  "address \<Rightarrow> ref \<Rightarrow> store \<Rightarrow> (error + ref) \<times> store" where
  "getAllTransactionForWallet_store a this s =
     (let txs = length s;
          s1 = s @ [ArrayObj []]
      in case deref s1 this of
           Some (BlockchainObj c d p m) \<Rightarrow>
             (case deref s1 c of
                Some (ArrayObj bs) \<Rightarrow>
                  (case wallet_blocks a txs bs s1 of
                     (Inl e, s') \<Rightarrow> (Inl e, s')
                   | (Inr u, s') \<Rightarrow> (Inr txs, s'))
              | _ \<Rightarrow> (Inl notAnObject, s1))
         | _ \<Rightarrow> (Inl notAnObject, s1))"

text \<open>
  \<open>isChainValid\<close> on the store. \<open>load_block\<close> reads a block with the transactions
  it holds, which is what \<^verbatim>\<open>JSON.stringify\<close> and the methods of the block read;
  \<open>createGenesisBlock_store\<close> allocates the empty array and the block that
  \<^verbatim>\<open>new Block('0', [], Date.now())\<close> builds, with the field values of \<open>new_Block\<close>.
  The digest and \<open>verify\<close> are given strings only, so the library cannot reach an
  object of the store.
\<close>

fun load_transactions :: "store \<Rightarrow> ref list \<Rightarrow> transaction list option" where
  "load_transactions s [] = Some []"
| "load_transactions s (t # ts) =
     (case deref s t of
        Some (TransactionObj tx) \<Rightarrow> map_option ((#) tx) (load_transactions s ts)
      | _ \<Rightarrow> None)"

definition load_block :: "store \<Rightarrow> ref \<Rightarrow> block option" where
  "load_block s b =
     (case deref s b of
        Some (BlockObj i p trs ts h n) \<Rightarrow>
          (case deref s trs of
             Some (ArrayObj rs) \<Rightarrow>
               map_option
                 (\<lambda>txs. \<lparr>index = i, previousHash = p, transactions = txs, timestamp = ts,
                         hash = h, nonce = n\<rparr>)
                 (load_transactions s rs)
           | _ \<Rightarrow> None)
      | _ \<Rightarrow> None)"

definition createGenesisBlock_store :: "crypto \<Rightarrow> int \<Rightarrow> store \<Rightarrow> ref \<times> store" where
  "createGenesisBlock_store cr now s =
     (let arr = length s;
          s1 = s @ [ArrayObj []];
          b = new_Block cr ''0'' [] now;
          blk = length s1;
          s2 = s1 @ [BlockObj (index b) (previousHash b) arr (block.timestamp b) (hash b) (nonce b)]
      in (blk, s2))"

fun checkLinks_store :: "crypto \<Rightarrow> ref \<Rightarrow> ref list \<Rightarrow> store \<Rightarrow> (error + bool) \<times> store" where
  "checkLinks_store cr previousBlock [] s = (Inr True, s)"
| "checkLinks_store cr previousBlock (currentBlock # rest) s =
     (case load_block s currentBlock of
        None \<Rightarrow> (Inl notAnObject, s)
      | Some cur \<Rightarrow>
          (case hasValidTransactions cr cur of
             Inl e \<Rightarrow> (Inl e, s)
           | Inr v \<Rightarrow>
               if \<not> v then (Inr False, s)
               else if hash cur \<noteq> Some (block_calculateHash cr cur) then (Inr False, s)
               else (case load_block s previousBlock of
                       None \<Rightarrow> (Inl notAnObject, s)
                     | Some prev \<Rightarrow>
                         if Some (previousHash cur) \<noteq> hash prev then (Inr False, s)
                         else checkLinks_store cr currentBlock rest s)))"

definition isChainValid_store :: "crypto \<Rightarrow> int \<Rightarrow> ref \<Rightarrow> store \<Rightarrow> (error + bool) \<times> store" where
  "isChainValid_store cr now this s =
     (case createGenesisBlock_store cr now s of
        (realGenesis, s1) \<Rightarrow>
          (case deref s1 this of
             Some (BlockchainObj c d p m) \<Rightarrow>
               (case deref s1 c of
                  Some (ArrayObj bs) \<Rightarrow>
                    (case bs of
                       [] \<Rightarrow> (Inr False, s1)
                     | first # rest \<Rightarrow>
                         if load_block s1 realGenesis \<noteq> load_block s1 first then (Inr False, s1)
                         else checkLinks_store cr first rest s1)
                | _ \<Rightarrow> (Inl notAnObject, s1))
           | _ \<Rightarrow> (Inl notAnObject, s1)))"

text \<open>\<open>load_ledger\<close> reads the whole ledger that a reference holds.\<close>

fun load_blocks :: "store \<Rightarrow> ref list \<Rightarrow> block list option" where
  "load_blocks s [] = Some []"
| "load_blocks s (b # bs) =
     (case load_block s b of
        None \<Rightarrow> None
      | Some blk \<Rightarrow> map_option ((#) blk) (load_blocks s bs))"

definition load_ledger :: "store \<Rightarrow> ref \<Rightarrow> blockchain option" where
  "load_ledger s this =
     (case deref s this of
        Some (BlockchainObj c d p m) \<Rightarrow>
          (case deref s c of
             Some (ArrayObj bs) \<Rightarrow>
               (case deref s p of
                  Some (ArrayObj ps) \<Rightarrow>
                    (case load_blocks s bs of
                       None \<Rightarrow> None
                     | Some blocks \<Rightarrow>
                         map_option
                           (\<lambda>pending. \<lparr>chain = blocks, difficulty = d,
                                         pendingTransactions = pending, mineReward = m\<rparr>)
                           (load_transactions s ps))
                | _ \<Rightarrow> None)
           | _ \<Rightarrow> None)
      | _ \<Rightarrow> None)"

section \<open>The balance as the specification words it\<close>






section \<open>The other variant of the file\<close>

text \<open>
  The repository holds a second copy of the three classes in another file, which the
  entry point \<^verbatim>\<open>main.js\<close> cannot use: it exports the ledger class itself, so the
  name \<^verbatim>\<open>Blockchain\<close> that \<^verbatim>\<open>main.js\<close> takes from the module is not there. Four of its methods are modelled here, with the suffix
  \<open>_p0\<close>, where they differ from the ones above: the constructor of a transaction
  assigns \<^verbatim>\<open>signature = null\<close>; \<open>signTransaction\<close> compares the private key
  itself with the sender and only logs on a mismatch; \<open>isValid\<close> returns false on a
  \<^verbatim>\<open>null\<close> signature; \<open>mineBlock\<close> reads \<^verbatim>\<open>this.hash.substring\<close> without
  the guard, which raises on an absent hash. (Its constructor of a block takes all six
  fields, and its \<open>minePendingTransactions\<close> passes the index of the latest block plus
  one, the hash \<^verbatim>\<open>null\<close> and the nonce \<open>0\<close>.)
\<close>

definition new_Transaction_p0 :: "address \<Rightarrow> string \<Rightarrow> int \<Rightarrow> int \<Rightarrow> transaction" where
  "new_Transaction_p0 s r a now =
     \<lparr>sender = s, recipient = r, amount = a, transaction.timestamp = now,
      signature = NullSignature\<rparr>"

definition signTransaction_p0 ::
  "crypto \<Rightarrow> key \<Rightarrow> transaction \<Rightarrow> (error + unit) \<times> transaction" where
  "signTransaction_p0 cr privateKey t =
     (if Some privateKey = sender t
      then let h = tx_calculateHash cr t;
               sig = sign_toDER cr h privateKey
           in (Inr (), t\<lparr>signature := Signature sig\<rparr>)
      else (Inr (), t))"

definition isValid_p0 :: "crypto \<Rightarrow> transaction \<Rightarrow> error + bool" where
  "isValid_p0 cr t =
     (if signature t = NullSignature then Inr False
      else verify cr (sender t) (tx_calculateHash cr t) (signature t))"

partial_function (option) mineBlock_p0 ::
  "crypto \<Rightarrow> nat \<Rightarrow> block \<Rightarrow> (error + block) option" where
  "mineBlock_p0 cr d b =
     (case hash b of
        None \<Rightarrow> Some (Inl (TypeError ''Cannot read properties of null''))
      | Some h \<Rightarrow>
          if take d h \<noteq> replicate d CHR ''1'' then mineBlock_p0 cr d (mineStep cr b)
          else Some (Inr b))"

section \<open>A small instance of the collaborators\<close>

text \<open>
  To run the definitions on concrete inputs the four library calls need values. The
  instance \<open>demo\<close> is not SHA-256 and not secp256k1; it keeps what the code relies on.
  \<^item> The digest is a string of 8 hex digits, a function of its input alone.
  \<^item> The public identifier of a key starts with \<open>04\<close>, as an uncompressed point does.
  \<^item> A signature starts with \<open>30\<close>, as a DER sequence does, and \<open>verify\<close> accepts
    the signature that \<open>sign_toDER\<close> made for the same digest and key pair.
  \<^item> \<open>verify\<close> raises as the elliptic library does: on a sender that is not a point
    (\<^verbatim>\<open>Unknown point format\<close>), on a signature that is \<^verbatim>\<open>undefined\<close> or
    \<^verbatim>\<open>null\<close> (the constructor of its \<^verbatim>\<open>Signature\<close> reads a property of the
    value), on a string that is not DER (\<^verbatim>\<open>Signature without r or s\<close>).
\<close>

definition hexDigit :: "nat \<Rightarrow> char" where
  "hexDigit n = ''0123456789abcdef'' ! (n mod 16)"

definition demo_sha256 :: "string \<Rightarrow> string" where
  "demo_sha256 s = replicate 8 (hexDigit (sum_list (map of_char s)))"

definition demo_signature :: "address \<Rightarrow> string \<Rightarrow> jssig \<Rightarrow> error + bool" where
  "demo_signature a h s =
     (case s of
        NoSignature \<Rightarrow> Inl (TypeError ''Cannot read properties of undefined'')
      | NullSignature \<Rightarrow> Inl (TypeError ''Cannot read properties of null'')
      | Signature der \<Rightarrow>
          (if take 2 der \<noteq> ''30'' then Inl (Error ''Signature without r or s'')
           else (case a of
                   None \<Rightarrow> Inr False
                 | Some p \<Rightarrow> Inr (der = ''30'' @ drop 2 p @ h))))"

definition demo_verify :: "address \<Rightarrow> string \<Rightarrow> jssig \<Rightarrow> error + bool" where
  "demo_verify a h s =
     (case a of
        None \<Rightarrow> demo_signature a h s
      | Some p \<Rightarrow>
          (if take 2 p \<noteq> ''04'' then Inl (Error ''Unknown point format'')
           else demo_signature a h s))"

definition demo :: crypto where
  "demo = \<lparr>sha256 = demo_sha256,
           getPublic = (\<lambda>k. ''04'' @ k),
           sign_toDER = (\<lambda>h k. ''30'' @ k @ h),
           verify = demo_verify\<rparr>"

section \<open>The honest scenario of the entry point\<close>

text \<open>
  \<^verbatim>\<open>main.js\<close>, up to its second mining: build the ledger, mine to the wallet, sign
  and submit a transfer of \<open>x\<close> from the wallet to \<open>to\<close>, mine again. The clock is read at \<open>t0\<close> by the
  constructor of the ledger, at \<open>t1\<close> and \<open>t2\<close> by the first mining, at \<open>t3\<close> by
  the constructor of the transfer, at \<open>t4\<close> and \<open>t5\<close> by the second mining.
\<close>

definition honestScenario ::
  "crypto \<Rightarrow> key \<Rightarrow> string \<Rightarrow> int \<Rightarrow> int \<Rightarrow> int \<Rightarrow> int \<Rightarrow> int \<Rightarrow> int \<Rightarrow> int
     \<Rightarrow> (error + blockchain) option" where
  "honestScenario cr myKey to x t0 t1 t2 t3 t4 t5 =
     (let myWalletAddress = getPublic cr myKey;
          bc0 = new_Blockchain cr t0
      in case minePendingTransactions cr t1 t2 myWalletAddress bc0 of
           None \<Rightarrow> None
         | Some (Inl e) \<Rightarrow> Some (Inl e)
         | Some (Inr bc1) \<Rightarrow>
             (case signTransaction cr myKey (new_Transaction (Some myWalletAddress) to x t3) of
                (Inl e, tx1) \<Rightarrow> Some (Inl e)
              | (Inr u, tx1) \<Rightarrow>
                  (case addTransaction cr tx1 bc1 of
                     Inl e \<Rightarrow> Some (Inl e)
                   | Inr bc2 \<Rightarrow> minePendingTransactions cr t4 t5 myWalletAddress bc2)))"

section \<open>Rules for running the definitions\<close>

lemma replicate_numeral: "replicate (numeral k) x = x # replicate (pred_numeral k) x"
  by (simp add: numeral_eq_Suc)

lemma digits_small: "n < 10 \<Longrightarrow> digits n = [''0123456789'' ! n]"
  by (simp add: digits.simps)

lemma digits_large:
  "\<not> n < 10 \<Longrightarrow> digits n = digits (n div 10) @ [''0123456789'' ! (n mod 10)]"
  by (subst digits.simps) simp

lemma mineBlock_done: "meetsTarget d (hash b) \<Longrightarrow> mineBlock cr d b = Some b"
  by (subst mineBlock.simps) simp

lemma mineBlock_step:
  "\<not> meetsTarget d (hash b) \<Longrightarrow> mineBlock cr d b = mineBlock cr d (mineStep cr b)"
  by (subst mineBlock.simps) simp

lemma toDouble_safe: "\<bar>z\<bar> \<le> 9007199254740992 \<Longrightarrow> toDouble z = z"
  by (simp add: toDouble_def)



lemmas balance_eval = balanceStep_def js_add_def js_sub_def toDouble_safe Let_def

lemmas demo_eval = demo_def demo_sha256_def hexDigit_def demo_verify_def demo_signature_def
  toString_def digits_small digits_large replicate_numeral

lemmas ledger_eval = minePendingTransactions_def new_Blockchain_def createGenesisBlock_def
  new_Block_def getLatestBlock_def new_Transaction_def block_calculateHash_def
  tx_calculateHash_def meetsTarget_def mineStep_def mineBlock_done mineBlock_step Let_def

section \<open>Transaction\<close>

text \<open>
  C1. Claim: a transaction with a \<^verbatim>\<open>null\<close> sender and no signature is valid, and a
  transaction with a present sender and no signature is invalid. The code returns true
  on a \<^verbatim>\<open>null\<close> signature before it looks at the sender: a transaction with a present
  sender and a \<^verbatim>\<open>null\<close> signature is reported valid.
\<close>

theorem isValid_null_signature_accepted:
  "isValid cr \<lparr>sender = Some pk, recipient = r, amount = a, transaction.timestamp = ts,
               signature = NullSignature\<rparr> = Inr True"
  by (simp add: isValid_def)

text \<open>The other variant rejects every \<^verbatim>\<open>null\<close> signature, that of a reward too.\<close>

lemma isValid_p0_null_signature:
  "isValid_p0 cr (new_Transaction_p0 s r a now) = Inr False"
  by (simp add: isValid_p0_def new_Transaction_p0_def)

text \<open>
  In \<^verbatim>\<open>src/blockchain.js\<close> a key whose public identifier is not the sender makes
  \<open>signTransaction\<close> raise and leaves the transaction as it was; a key whose public
  identifier is the sender makes it return and store the DER form of the signature of
  \<open>calculateHash()\<close> under that key.
\<close>

theorem signTransaction_own_wallet_only:
  "(Some (getPublic cr k) \<noteq> sender t \<longrightarrow>
      signTransaction cr k t
        = (Inl (Error ''You cannot sign transactions for other wallets!''), t))
   \<and> (Some (getPublic cr k) = sender t \<longrightarrow>
      signTransaction cr k t
        = (Inr (), t\<lparr>signature := Signature (sign_toDER cr (tx_calculateHash cr t) k)\<rparr>))"
  by (simp add: signTransaction_def)

theorem signTransaction_own_wallet_only_witness:
  "Some (getPublic demo ''cd'') \<noteq> sender (new_Transaction (Some ''04ab'') ''address2'' 100 1010)
   \<and> signTransaction demo ''cd'' (new_Transaction (Some ''04ab'') ''address2'' 100 1010)
       = (Inl (Error ''You cannot sign transactions for other wallets!''),
          new_Transaction (Some ''04ab'') ''address2'' 100 1010)
   \<and> Some (getPublic demo ''ab'') = sender (new_Transaction (Some ''04ab'') ''address2'' 100 1010)
   \<and> signTransaction demo ''ab'' (new_Transaction (Some ''04ab'') ''address2'' 100 1010)
       = (Inr (), \<lparr>sender = Some ''04ab'', recipient = ''address2'', amount = 100,
                    transaction.timestamp = 1010, signature = Signature ''30ab22222222''\<rparr>)"
proof -
  let ?t = "new_Transaction (Some ''04ab'') ''address2'' 100 1010"
  have foreign: "Some (getPublic demo ''cd'') \<noteq> sender ?t"
    by (simp add: demo_def new_Transaction_def)
  have own: "Some (getPublic demo ''ab'') = sender ?t"
    by (simp add: demo_def new_Transaction_def)
  have h: "tx_calculateHash demo ?t = ''22222222''"
    by (simp add: tx_calculateHash_def new_Transaction_def demo_eval)
  have s: "sign_toDER demo ''22222222'' ''ab'' = ''30ab22222222''"
    by (simp add: demo_def)
  from signTransaction_own_wallet_only [of demo "''cd''" ?t] foreign
  have 1: "signTransaction demo ''cd'' ?t
             = (Inl (Error ''You cannot sign transactions for other wallets!''), ?t)"
    by blast
  from signTransaction_own_wallet_only [of demo "''ab''" ?t] own
  have "signTransaction demo ''ab'' ?t
          = (Inr (), ?t\<lparr>signature := Signature (sign_toDER demo (tx_calculateHash demo ?t) ''ab'')\<rparr>)"
    by blast
  then have 2: "signTransaction demo ''ab'' ?t
          = (Inr (), \<lparr>sender = Some ''04ab'', recipient = ''address2'', amount = 100,
                       transaction.timestamp = 1010, signature = Signature ''30ab22222222''\<rparr>)"
    by (simp add: h s) (simp add: new_Transaction_def)
  from foreign own 1 2 show ?thesis by blast
qed

text \<open>
  C2. Claim: signing with a key whose public identifier is not the sender fails with an
  error and leaves the transaction unsigned, and signing with the key of the sender
  stores the signature. The other copy of the class compares the private key itself
  with the sender and only logs on a mismatch: \<open>signTransaction\<close> there never raises,
  and it leaves the transaction as it was whenever the private key is not literally the
  sender, which is so for a foreign key and for the sender's own key alike.
\<close>

theorem signTransaction_p0_never_raises:
  "fst (signTransaction_p0 cr k t) = Inr ()
   \<and> (Some k \<noteq> sender t \<longrightarrow> snd (signTransaction_p0 cr k t) = t)"
  by (simp add: signTransaction_p0_def Let_def)

theorem signTransaction_p0_never_raises_witness:
  "Some (getPublic demo ''cd'') \<noteq> sender (new_Transaction_p0 (Some ''04ab'') ''address2'' 100 1010)
   \<and> Some ''cd'' \<noteq> sender (new_Transaction_p0 (Some ''04ab'') ''address2'' 100 1010)
   \<and> signTransaction_p0 demo ''cd'' (new_Transaction_p0 (Some ''04ab'') ''address2'' 100 1010)
       = (Inr (), new_Transaction_p0 (Some ''04ab'') ''address2'' 100 1010)
   \<and> Some (getPublic demo ''ab'') = sender (new_Transaction_p0 (Some ''04ab'') ''address2'' 100 1010)
   \<and> Some ''ab'' \<noteq> sender (new_Transaction_p0 (Some ''04ab'') ''address2'' 100 1010)
   \<and> signTransaction_p0 demo ''ab'' (new_Transaction_p0 (Some ''04ab'') ''address2'' 100 1010)
       = (Inr (), new_Transaction_p0 (Some ''04ab'') ''address2'' 100 1010)
   \<and> signature (new_Transaction_p0 (Some ''04ab'') ''address2'' 100 1010) = NullSignature"
proof -
  let ?t = "new_Transaction_p0 (Some ''04ab'') ''address2'' 100 1010"
  have pub: "Some (getPublic demo ''cd'') \<noteq> sender ?t" "Some (getPublic demo ''ab'') = sender ?t"
    by (simp_all add: demo_def new_Transaction_p0_def)
  have foreign: "Some ''cd'' \<noteq> sender ?t"
    by (simp add: new_Transaction_p0_def)
  have own: "Some ''ab'' \<noteq> sender ?t"
    by (simp add: new_Transaction_p0_def)
  have unsigned: "signature ?t = NullSignature"
    by (simp add: new_Transaction_p0_def)
  from signTransaction_p0_never_raises [of demo "''cd''" ?t] foreign
  have 1: "signTransaction_p0 demo ''cd'' ?t = (Inr (), ?t)"
    by (simp add: prod_eq_iff)
  from signTransaction_p0_never_raises [of demo "''ab''" ?t] own
  have 2: "signTransaction_p0 demo ''ab'' ?t = (Inr (), ?t)"
    by (simp add: prod_eq_iff)
  from pub foreign own unsigned 1 2 show ?thesis by blast
qed

text \<open>
  C3. Claim: on a transaction whose signature was never set, \<open>isValid\<close> returns a
  boolean and never raises. The constructor leaves \<open>signature\<close> unset, the test
  \<^verbatim>\<open>=== null\<close> does not catch \<^verbatim>\<open>undefined\<close>, and the test for an empty signature
  only logs: the call ends in the library's \<open>verify\<close> with an undefined signature, and
  returns or raises as the library does. On the instance \<open>demo\<close>, which raises there as
  the elliptic library does, the reward transaction that \<open>minePendingTransactions\<close>
  builds makes \<open>isValid\<close> raise.
\<close>

theorem isValid_unset_signature_reaches_verify:
  "isValid cr (new_Transaction s r a now)
     = verify cr s (tx_calculateHash cr (new_Transaction s r a now)) NoSignature
   \<and> isValid demo (new_Transaction None ''04ab'' 100 1002)
     = Inl (TypeError ''Cannot read properties of undefined'')"
proof
  show "isValid cr (new_Transaction s r a now)
          = verify cr s (tx_calculateHash cr (new_Transaction s r a now)) NoSignature"
    by (simp add: isValid_def new_Transaction_def)
  show "isValid demo (new_Transaction None ''04ab'' 100 1002)
          = Inl (TypeError ''Cannot read properties of undefined'')"
    by (simp add: isValid_def new_Transaction_def demo_def demo_verify_def demo_signature_def)
qed

section \<open>Block\<close>

text \<open>
  C5. Two blocks with the same \<open>index\<close>, \<open>previousHash\<close>, \<open>timestamp\<close> and \<open>nonce\<close>
  have the same \<open>calculateHash()\<close>, whatever their transactions (and stored hashes).
\<close>

theorem block_calculateHash_ignores_transactions:
  "index b1 = index b2 \<Longrightarrow> previousHash b1 = previousHash b2
   \<Longrightarrow> block.timestamp b1 = block.timestamp b2 \<Longrightarrow> nonce b1 = nonce b2
   \<Longrightarrow> block_calculateHash cr b1 = block_calculateHash cr b2"
  by (simp add: block_calculateHash_def)

theorem block_calculateHash_ignores_transactions_witness:
  "block_calculateHash demo
     \<lparr>index = Num 1, previousHash = ''55555555'', transactions = [], timestamp = 1003,
      hash = None, nonce = Num 3\<rparr>
   = block_calculateHash demo
     \<lparr>index = Num 1, previousHash = ''55555555'',
      transactions = [new_Transaction None ''04ab'' 100 1002], timestamp = 1003,
      hash = Some ''11111111'', nonce = Num 3\<rparr>
   \<and> ([] :: transaction list) \<noteq> [new_Transaction None ''04ab'' 100 1002]"
  using block_calculateHash_ignores_transactions
    [of "\<lparr>index = Num 1, previousHash = ''55555555'', transactions = [], timestamp = 1003,
          hash = None, nonce = Num 3\<rparr>"
        "\<lparr>index = Num 1, previousHash = ''55555555'',
          transactions = [new_Transaction None ''04ab'' 100 1002], timestamp = 1003,
          hash = Some ''11111111'', nonce = Num 3\<rparr>" demo]
  by simp

subsection \<open>The search loop\<close>

text \<open>One pass of the loop stores the hash of the block it leaves.\<close>

lemma hash_mineStep: "hash (mineStep cr b) = Some (block_calculateHash cr (mineStep cr b))"
  by (simp add: mineStep_def Let_def block_calculateHash_def)

text \<open>
  What a search that ends returns: a block whose stored hash meets the target and which
  is either the block it was given or one whose stored hash is its \<open>calculateHash()\<close>.
\<close>

lemma mineBlock_Some:
  assumes "mineBlock cr d b = Some b'"
  shows "meetsTarget d (hash b') \<and> (b' = b \<or> hash b' = Some (block_calculateHash cr b'))"
proof (rule mineBlock.raw_induct
    [where P = "\<lambda>cr d b b'. meetsTarget d (hash b')
                  \<and> (b' = b \<or> hash b' = Some (block_calculateHash cr b'))", OF _ assms])
  fix mb :: "crypto \<Rightarrow> nat \<Rightarrow> block \<Rightarrow> block option" and cr d b b'
  assume IH: "\<And>cr d b b'. mb cr d b = Some b' \<Longrightarrow>
                meetsTarget d (hash b') \<and> (b' = b \<or> hash b' = Some (block_calculateHash cr b'))"
    and eq: "(if \<not> meetsTarget d (hash b) then mb cr d (mineStep cr b) else Some b) = Some b'"
  show "meetsTarget d (hash b') \<and> (b' = b \<or> hash b' = Some (block_calculateHash cr b'))"
  proof (cases "meetsTarget d (hash b)")
    case True
    with eq show ?thesis by simp
  next
    case False
    with eq have "mb cr d (mineStep cr b) = Some b'" by simp
    from IH [OF this] show ?thesis
      by (auto simp: hash_mineStep)
  qed
qed

lemma meetsTarget_prefix:
  "meetsTarget d h \<Longrightarrow> \<exists>s. h = Some s \<and> d \<le> length s \<and> (\<forall>i<d. s ! i = CHR ''1'')"
proof -
  assume m: "meetsTarget d h"
  then obtain s where s: "h = Some s" and t: "take d s = replicate d CHR ''1''"
    by (cases h) (auto simp: meetsTarget_def)
  from t have "length (take d s) = d" by simp
  then have len: "d \<le> length s" by simp
  have "\<forall>i<d. s ! i = CHR ''1''"
  proof (intro allI impI)
    fix i assume i: "i < d"
    then have "s ! i = take d s ! i" by simp
    also have "\<dots> = CHR ''1''" using t i by simp
    finally show "s ! i = CHR ''1''" .
  qed
  with s len show ?thesis by blast
qed

text \<open>
  The search ends exactly when some number of passes reaches a hash that meets the
  target, and it then returns the block after the least such number of passes.
\<close>

lemma mineBlock_iter:
  "meetsTarget d (hash ((mineStep cr ^^ k) b)) \<Longrightarrow>
   (\<forall>j<k. \<not> meetsTarget d (hash ((mineStep cr ^^ j) b))) \<Longrightarrow>
   mineBlock cr d b = Some ((mineStep cr ^^ k) b)"
proof (induction k arbitrary: b)
  case 0
  then show ?case by (simp add: mineBlock_done)
next
  case (Suc k)
  from Suc.prems(2) have nb: "\<not> meetsTarget d (hash b)" by fastforce
  have m: "meetsTarget d (hash ((mineStep cr ^^ k) (mineStep cr b)))"
    using Suc.prems(1) by (simp add: funpow_swap1)
  have n: "\<forall>j<k. \<not> meetsTarget d (hash ((mineStep cr ^^ j) (mineStep cr b)))"
  proof (intro allI impI)
    fix j assume "j < k"
    then have "Suc j < Suc k" by simp
    with Suc.prems(2) have "\<not> meetsTarget d (hash ((mineStep cr ^^ Suc j) b))" by blast
    then show "\<not> meetsTarget d (hash ((mineStep cr ^^ j) (mineStep cr b)))"
      by (simp add: funpow_swap1)
  qed
  have "mineBlock cr d b = mineBlock cr d (mineStep cr b)"
    using nb by (rule mineBlock_step)
  also have "\<dots> = Some ((mineStep cr ^^ k) (mineStep cr b))"
    by (rule Suc.IH [OF m n])
  finally show ?case by (simp add: funpow_swap1)
qed

lemma mineBlock_ends:
  assumes "meetsTarget d (hash ((mineStep cr ^^ k) b))"
  shows "\<exists>j\<le>k. mineBlock cr d b = Some ((mineStep cr ^^ j) b)"
proof -
  define j where "j = (LEAST j. meetsTarget d (hash ((mineStep cr ^^ j) b)))"
  have mj: "meetsTarget d (hash ((mineStep cr ^^ j) b))"
    unfolding j_def using assms by (rule LeastI)
  have le: "j \<le> k"
    unfolding j_def using assms by (rule Least_le)
  have "\<forall>i<j. \<not> meetsTarget d (hash ((mineStep cr ^^ i) b))"
    unfolding j_def using not_less_Least by blast
  with mj have "mineBlock cr d b = Some ((mineStep cr ^^ j) b)"
    by (rule mineBlock_iter)
  with le show ?thesis by blast
qed

text \<open>The passes change \<open>nonce\<close> and \<open>hash\<close> only.\<close>

lemma mineStep_frame:
  "index ((mineStep cr ^^ j) b) = index b
   \<and> previousHash ((mineStep cr ^^ j) b) = previousHash b
   \<and> transactions ((mineStep cr ^^ j) b) = transactions b
   \<and> block.timestamp ((mineStep cr ^^ j) b) = block.timestamp b"
  by (induction j) (simp_all add: mineStep_def Let_def)

text \<open>
  C4. Claim: after \<open>mineBlock(d)\<close> the first \<open>d\<close> characters of \<open>hash\<close> are the
  target digit and \<open>hash\<close> equals \<open>calculateHash()\<close>. The first part holds
  (\<open>mineBlock_Some\<close>, \<open>meetsTarget_prefix\<close>). The second fails on a block as the
  constructor builds it: the constructor computes \<open>hash\<close> while \<open>nonce\<close> is still
  unset and then sets \<open>nonce = 1\<close>, so when that first hash already meets the target
  the loop body never runs and the block keeps a hash computed with the text
  \<open>undefined\<close> in place of its nonce, while \<open>calculateHash()\<close> now ends in \<open>1\<close>.
\<close>

theorem mineBlock_keeps_constructor_hash:
  assumes "meetsTarget d (hash (new_Block cr p txs ts))"
  shows "mineBlock cr d (new_Block cr p txs ts) = Some (new_Block cr p txs ts)
         \<and> hash (new_Block cr p txs ts)
             = Some (sha256 cr (''undefined'' @ p @ toString ts @ ''undefined''))
         \<and> block_calculateHash cr (new_Block cr p txs ts)
             = sha256 cr (''undefined'' @ p @ toString ts @ ''1'')"
proof (intro conjI)
  show "mineBlock cr d (new_Block cr p txs ts) = Some (new_Block cr p txs ts)"
    using assms by (rule mineBlock_done)
  show "hash (new_Block cr p txs ts)
          = Some (sha256 cr (''undefined'' @ p @ toString ts @ ''undefined''))"
    by (simp add: new_Block_def block_calculateHash_def)
  have one: "toString 1 = ''1''"
    by (simp add: toString_def digits_small)
  show "block_calculateHash cr (new_Block cr p txs ts)
          = sha256 cr (''undefined'' @ p @ toString ts @ ''1'')"
    by (simp add: new_Block_def block_calculateHash_def one)
qed

theorem mineBlock_keeps_constructor_hash_witness:
  "meetsTarget 4 (hash (new_Block demo ''55555555'' [] 1004))
   \<and> mineBlock demo 4 (new_Block demo ''55555555'' [] 1004)
       = Some (new_Block demo ''55555555'' [] 1004)
   \<and> hash (new_Block demo ''55555555'' [] 1004) = Some ''11111111''
   \<and> block_calculateHash demo (new_Block demo ''55555555'' [] 1004) = ''00000000''"
proof -
  have m: "meetsTarget 4 (hash (new_Block demo ''55555555'' [] 1004))"
    by (simp add: meetsTarget_def new_Block_def block_calculateHash_def demo_eval)
  have h1: "sha256 demo (''undefined'' @ ''55555555'' @ toString 1004 @ ''undefined'')
              = ''11111111''"
    by (simp add: demo_eval)
  have h2: "sha256 demo (''undefined'' @ ''55555555'' @ toString 1004 @ ''1'') = ''00000000''"
    by (simp add: demo_eval)
  from mineBlock_keeps_constructor_hash [OF m] h1 h2 m show ?thesis
    by simp
qed

text \<open>
  In the other variant \<open>mineBlock\<close> raises on a block without a hash, which is what its
  \<open>minePendingTransactions\<close> passes.
\<close>

lemma mineBlock_p0_null_hash:
  "hash b = None \<Longrightarrow> mineBlock_p0 cr d b = Some (Inl (TypeError ''Cannot read properties of null''))"
  by (subst mineBlock_p0.simps) simp

section \<open>Blockchain\<close>

subsection \<open>Balances\<close>









subsection \<open>Observers\<close>

text \<open>
  The loops of \<open>getBalanceOfAddress\<close> and of \<open>isChainValid\<close> write nothing; those of
  \<open>getAllTransactionForWallet\<close> write to the array that the call allocated, which
  lies beyond every object the store held before.
\<close>

lemma balance_transactions_store: "snd (balance_transactions a ts balance s) = s"
  by (induction ts arbitrary: balance) (auto split: option.splits obj.splits)

lemma balance_blocks_store: "snd (balance_blocks a bs balance s) = s"
proof (induction bs arbitrary: balance)
  case Nil
  show ?case by simp
next
  case (Cons b bs)
  show ?case
    using balance_transactions_store [of a _ balance s] Cons.IH
    by (auto split: option.splits obj.splits prod.splits sum.splits) (metis snd_conv)+
qed

lemma push_frame:
  "n \<le> arr \<Longrightarrow> take n (snd (push arr x s)) = take n s \<and> length (snd (push arr x s)) = length s"
  by (auto simp: push_def split: option.splits obj.splits)

lemma wallet_transactions_frame:
  "n \<le> txs \<Longrightarrow> take n (snd (wallet_transactions a txs ts s)) = take n s
     \<and> length (snd (wallet_transactions a txs ts s)) = length s"
proof (induction ts arbitrary: s)
  case Nil
  show ?case by simp
next
  case (Cons t ts)
  show ?case
  proof (cases "deref s t")
    case None
    then show ?thesis by simp
  next
    case (Some ob)
    show ?thesis
    proof (cases ob)
      case (TransactionObj tx)
      show ?thesis
      proof (cases "sender tx = a \<or> Some (recipient tx) = a")
        case False
        with Some TransactionObj Cons.IH [OF Cons.prems, of s] show ?thesis by simp
      next
        case True
        obtain res s' where p: "push txs t s = (res, s')" by (cases "push txs t s")
        from push_frame [OF Cons.prems, of t s] p
        have fr: "take n s' = take n s" "length s' = length s" by simp_all
        show ?thesis
        proof (cases res)
          case (Inl e)
          with Some TransactionObj True p fr show ?thesis by simp
        next
          case (Inr u)
          with Some TransactionObj True p fr Cons.IH [OF Cons.prems, of s'] show ?thesis by simp
        qed
      qed
    qed (use Some in simp_all)
  qed
qed


lemma wallet_blocks_frame:
  "n \<le> txs \<Longrightarrow> take n (snd (wallet_blocks a txs bs s)) = take n s
     \<and> length (snd (wallet_blocks a txs bs s)) = length s"
proof (induction bs arbitrary: s)
  case Nil
  show ?case by simp
next
  case (Cons b bs)
  show ?case
  proof (cases "deref s b")
    case None
    then show ?thesis by simp
  next
    case (Some ob)
    show ?thesis
    proof (cases ob)
      case (BlockObj i p trs ts h nn)
      show ?thesis
      proof (cases "deref s trs")
        case None
        with Some BlockObj show ?thesis by simp
      next
        case inner: (Some ob')
        show ?thesis
        proof (cases ob')
          case (ArrayObj rs)
          obtain res s' where w: "wallet_transactions a txs rs s = (res, s')"
            by (cases "wallet_transactions a txs rs s")
          from wallet_transactions_frame [OF Cons.prems, of a rs s] w
          have fr: "take n s' = take n s" "length s' = length s" by simp_all
          show ?thesis
          proof (cases res)
            case (Inl e)
            with Some BlockObj inner ArrayObj w fr show ?thesis by simp
          next
            case (Inr u)
            with Some BlockObj inner ArrayObj w fr Cons.IH [OF Cons.prems, of s']
            show ?thesis by simp
          qed
        qed (use Some BlockObj inner in simp_all)
      qed
    qed (use Some in simp_all)
  qed
qed

lemma getAllTransactionForWallet_store_frame:
  "take (length s) (snd (getAllTransactionForWallet_store a this s)) = s"
proof -
  let ?s1 = "s @ [ArrayObj []]"
  have base: "take (length s) ?s1 = s" by simp
  have loop: "take (length s) (snd (wallet_blocks a (length s) bs ?s1)) = s" for bs
    using wallet_blocks_frame [of "length s" "length s" a bs ?s1] by simp
  show ?thesis
    using loop
    by (auto simp: getAllTransactionForWallet_store_def Let_def
             split: option.splits obj.splits prod.splits sum.splits)
       (metis snd_conv)+
qed

lemma checkLinks_store_frame: "snd (checkLinks_store cr prev bs s) = s"
  by (induction bs arbitrary: prev)
     (auto split: option.splits sum.splits)

lemma isChainValid_store_frame:
  "take (length s) (snd (isChainValid_store cr now this s)) = s"
  by (auto simp: isChainValid_store_def createGenesisBlock_store_def Let_def
        checkLinks_store_frame
      split: option.splits obj.splits list.splits)

lemma getBalanceOfAddress_store_frame:
  "take (length s) (snd (getBalanceOfAddress_store a this s)) = s"
  by (auto simp: getBalanceOfAddress_store_def balance_blocks_store
      split: option.splits obj.splits)

text \<open>
  C10. A call of \<open>getBalanceOfAddress\<close>, \<open>getAllTransactionForWallet\<close> or
  \<open>isChainValid\<close> leaves every object that the store held before the call as it was:
  the ledger with its \<open>chain\<close> and \<open>pendingTransactions\<close>, the two arrays, every
  block and every transaction. The call only adds objects of its own (the array that
  \<open>getAllTransactionForWallet\<close> returns, the genesis block that \<open>isChainValid\<close>
  builds for the comparison).
\<close>

theorem observers_leave_stored_objects_unchanged:
  "take (length s) (snd (getBalanceOfAddress_store a this s)) = s
   \<and> take (length s) (snd (getAllTransactionForWallet_store a this s)) = s
   \<and> take (length s) (snd (isChainValid_store cr now this s)) = s"
  by (simp add: getBalanceOfAddress_store_frame getAllTransactionForWallet_store_frame
      isChainValid_store_frame)

text \<open>
  On a store that holds a ledger, the three calls return what the functions on values
  compute: the store only adds the objects and the references.
\<close>

lemma balance_transactions_value:
  "load_transactions s ts = Some txl \<Longrightarrow>
   balance_transactions a ts balance s = (Inr (foldl (balanceStep a) balance txl), s)"
proof (induction ts arbitrary: balance txl)
  case Nil
  then show ?case by simp
next
  case (Cons t ts)
  from Cons.prems obtain tx rest where
    t: "deref s t = Some (TransactionObj tx)" and
    r: "load_transactions s ts = Some rest" and
    l: "txl = tx # rest"
    by (auto split: option.splits obj.splits)
  from Cons.IH [OF r, of "balanceStep a balance tx"] t l show ?case
    by simp
qed

lemma balance_blocks_value:
  "load_blocks s bs = Some blocks \<Longrightarrow>
   balance_blocks a bs balance s
     = (Inr (foldl (\<lambda>balance blk. foldl (balanceStep a) balance (transactions blk))
               balance blocks), s)"
proof (induction bs arbitrary: balance blocks)
  case Nil
  then show ?case by simp
next
  case (Cons b bs)
  from Cons.prems obtain blk rest where
    b: "load_block s b = Some blk" and
    r: "load_blocks s bs = Some rest" and
    l: "blocks = blk # rest"
    by (auto split: option.splits)
  from b obtain i p trs ts h n rs where
    d: "deref s b = Some (BlockObj i p trs ts h n)" and
    arr: "deref s trs = Some (ArrayObj rs)" and
    txs: "load_transactions s rs = Some (transactions blk)"
    by (auto simp: load_block_def split: option.splits obj.splits)
  from balance_transactions_value [OF txs, of a balance]
       Cons.IH [OF r, of "foldl (balanceStep a) balance (transactions blk)"] d arr l
  show ?case by simp
qed

lemma getBalanceOfAddress_store_value:
  "load_ledger s this = Some bc \<Longrightarrow>
   getBalanceOfAddress_store a this s = (Inr (getBalanceOfAddress a bc), s)"
proof -
  assume "load_ledger s this = Some bc"
  then obtain c d p m bs where
    l: "deref s this = Some (BlockchainObj c d p m)" and
    arr: "deref s c = Some (ArrayObj bs)" and
    blocks: "load_blocks s bs = Some (chain bc)"
    by (auto simp: load_ledger_def split: option.splits obj.splits)
  from balance_blocks_value [OF blocks, of a 0] l arr show ?thesis
    by (simp add: getBalanceOfAddress_store_def getBalanceOfAddress_def)
qed


lemma deref_prefix:
  "take (length s0) s = s0 \<Longrightarrow> deref s0 r = Some ob \<Longrightarrow> deref s r = Some ob"
proof -
  assume t: "take (length s0) s = s0" and d: "deref s0 r = Some ob"
  from d have r: "r < length s0" and ob: "s0 ! r = ob"
    by (auto simp: deref_def split: if_splits)
  from t have "length (take (length s0) s) = length s0" by simp
  then have len: "length s0 \<le> length s" by simp
  from r have "take (length s0) s ! r = s ! r" by simp
  with t ob have "s ! r = ob" by simp
  with r len show ?thesis by (simp add: deref_def)
qed

lemma load_transactions_prefix:
  "take (length s0) s = s0 \<Longrightarrow> load_transactions s0 ts = Some txl \<Longrightarrow>
   load_transactions s ts = Some txl"
proof (induction ts arbitrary: txl)
  case Nil
  then show ?case by simp
next
  case (Cons t ts)
  from Cons.prems(2) obtain tx rest where
    t: "deref s0 t = Some (TransactionObj tx)" and
    r: "load_transactions s0 ts = Some rest" and
    l: "txl = tx # rest"
    by (auto split: option.splits obj.splits)
  from deref_prefix [OF Cons.prems(1) t] Cons.IH [OF Cons.prems(1) r] l show ?case
    by simp
qed

lemma load_block_prefix:
  "take (length s0) s = s0 \<Longrightarrow> load_block s0 b = Some blk \<Longrightarrow> load_block s b = Some blk"
proof -
  assume t: "take (length s0) s = s0" and b: "load_block s0 b = Some blk"
  from b obtain i p trs ts h n rs txl where
    d: "deref s0 b = Some (BlockObj i p trs ts h n)" and
    arr: "deref s0 trs = Some (ArrayObj rs)" and
    txs: "load_transactions s0 rs = Some txl" and
    blk: "blk = \<lparr>index = i, previousHash = p, transactions = txl, timestamp = ts,
                  hash = h, nonce = n\<rparr>"
    by (auto simp: load_block_def split: option.splits obj.splits)
  from deref_prefix [OF t d] deref_prefix [OF t arr] load_transactions_prefix [OF t txs] blk
  show ?thesis by (simp add: load_block_def)
qed

lemma load_blocks_prefix:
  "take (length s0) s = s0 \<Longrightarrow> load_blocks s0 bs = Some blocks \<Longrightarrow>
   load_blocks s bs = Some blocks"
proof (induction bs arbitrary: blocks)
  case Nil
  then show ?case by simp
next
  case (Cons b bs)
  from Cons.prems(2) obtain blk rest where
    b: "load_block s0 b = Some blk" and
    r: "load_blocks s0 bs = Some rest" and
    l: "blocks = blk # rest"
    by (auto split: option.splits)
  from load_block_prefix [OF Cons.prems(1) b] Cons.IH [OF Cons.prems(1) r] l show ?case
    by simp
qed

lemma checkLinks_store_value:
  "load_block s prev = Some pb \<Longrightarrow> load_blocks s bs = Some blocks \<Longrightarrow>
   checkLinks_store cr prev bs s = (checkLinks cr pb blocks, s)"
proof (induction bs arbitrary: prev pb blocks)
  case Nil
  then show ?case by simp
next
  case (Cons b bs)
  from Cons.prems(2) obtain blk rest where
    b: "load_block s b = Some blk" and
    r: "load_blocks s bs = Some rest" and
    l: "blocks = blk # rest"
    by (auto split: option.splits)
  from Cons.IH [OF b r] Cons.prems(1) b l show ?case
    by (simp split: sum.splits)
qed

lemma createGenesisBlock_store_value:
  "createGenesisBlock_store cr now s = (g, s') \<Longrightarrow>
   take (length s) s' = s \<and> load_block s' g = Some (createGenesisBlock cr now)"
  by (auto simp: createGenesisBlock_store_def Let_def load_block_def deref_def nth_append
      createGenesisBlock_def new_Block_def)

lemma isChainValid_store_value:
  assumes "load_ledger s this = Some bc"
  shows "fst (isChainValid_store cr now this s) = isChainValid cr now bc"
proof -
  from assms obtain c d p m bs where
    l: "deref s this = Some (BlockchainObj c d p m)" and
    arr: "deref s c = Some (ArrayObj bs)" and
    blocks: "load_blocks s bs = Some (chain bc)"
    by (auto simp: load_ledger_def split: option.splits obj.splits)
  obtain g s' where cg: "createGenesisBlock_store cr now s = (g, s')"
    by (cases "createGenesisBlock_store cr now s")
  from createGenesisBlock_store_value [OF cg]
  have pre: "take (length s) s' = s" and gen: "load_block s' g = Some (createGenesisBlock cr now)"
    by simp_all
  note l' = deref_prefix [OF pre l] and arr' = deref_prefix [OF pre arr]
    and blocks' = load_blocks_prefix [OF pre blocks]
  show ?thesis
  proof (cases bs)
    case Nil
    with blocks have "chain bc = []" by simp
    with Nil cg l' arr' show ?thesis
      by (simp add: isChainValid_store_def isChainValid_def)
  next
    case (Cons first rest)
    with blocks' obtain g0 rb where
      f: "load_block s' first = Some g0" and
      r: "load_blocks s' rest = Some rb" and
      ch: "chain bc = g0 # rb"
      by (auto split: option.splits)
    from checkLinks_store_value [OF f r, of cr] Cons cg l' arr' gen f ch show ?thesis
      by (simp add: isChainValid_store_def isChainValid_def)
  qed
qed


lemma load_transactions_snoc:
  "load_transactions s xs = Some accl \<Longrightarrow> deref s t = Some (TransactionObj tx) \<Longrightarrow>
   load_transactions s (xs @ [t]) = Some (accl @ [tx])"
  by (induction xs arbitrary: accl) (auto split: option.splits obj.splits)

lemma wallet_transactions_value:
  assumes "take (length s0) s = s0" and "length s = Suc (length s0)"
    and "s ! length s0 = ArrayObj xs" and "load_transactions s0 xs = Some accl"
    and "load_transactions s0 ts = Some txl"
  shows "\<exists>ys s'. wallet_transactions a (length s0) ts s = (Inr (), s')
           \<and> take (length s0) s' = s0 \<and> length s' = Suc (length s0)
           \<and> s' ! length s0 = ArrayObj ys
           \<and> load_transactions s0 ys
               = Some (foldl (\<lambda>txs tx. if sender tx = a \<or> Some (recipient tx) = a
                                        then txs @ [tx] else txs) accl txl)"
  using assms
proof (induction ts arbitrary: s xs accl txl)
  case Nil
  then show ?case by simp
next
  case (Cons t ts)
  from Cons.prems(5) obtain tx rest where
    t0: "deref s0 t = Some (TransactionObj tx)" and
    r: "load_transactions s0 ts = Some rest" and
    l: "txl = tx # rest"
    by (auto split: option.splits obj.splits)
  note t = deref_prefix [OF Cons.prems(1) t0]
  show ?case
  proof (cases "sender tx = a \<or> Some (recipient tx) = a")
    case False
    from Cons.IH [OF Cons.prems(1-4) r] t l False show ?thesis
      by simp
  next
    case True
    let ?s' = "s[length s0 := ArrayObj (xs @ [t])]"
    have p: "push (length s0) t s = (Inr (), ?s')"
      using Cons.prems(2,3) by (simp add: push_def deref_def)
    have 1: "take (length s0) ?s' = s0"
      using Cons.prems(1) by simp
    have 2: "length ?s' = Suc (length s0)"
      using Cons.prems(2) by simp
    have 3: "?s' ! length s0 = ArrayObj (xs @ [t])"
      using Cons.prems(2) by simp
    note 4 = load_transactions_snoc [OF Cons.prems(4) t0]
    from Cons.IH [OF 1 2 3 4 r] t l True p show ?thesis
      by simp
  qed
qed

lemma wallet_blocks_value:
  assumes "take (length s0) s = s0" and "length s = Suc (length s0)"
    and "s ! length s0 = ArrayObj xs" and "load_transactions s0 xs = Some accl"
    and "load_blocks s0 bs = Some blocks"
  shows "\<exists>ys s'. wallet_blocks a (length s0) bs s = (Inr (), s')
           \<and> take (length s0) s' = s0 \<and> length s' = Suc (length s0)
           \<and> s' ! length s0 = ArrayObj ys
           \<and> load_transactions s0 ys
               = Some (foldl (\<lambda>txs blk.
                                foldl (\<lambda>txs tx. if sender tx = a \<or> Some (recipient tx) = a
                                                 then txs @ [tx] else txs)
                                  txs (transactions blk)) accl blocks)"
  using assms
proof (induction bs arbitrary: s xs accl blocks)
  case Nil
  then show ?case by simp
next
  case (Cons b bs)
  from Cons.prems(5) obtain blk rest where
    b: "load_block s0 b = Some blk" and
    r: "load_blocks s0 bs = Some rest" and
    l: "blocks = blk # rest"
    by (auto split: option.splits)
  from b obtain i p trs ts h n rs where
    d0: "deref s0 b = Some (BlockObj i p trs ts h n)" and
    arr0: "deref s0 trs = Some (ArrayObj rs)" and
    txs: "load_transactions s0 rs = Some (transactions blk)"
    by (auto simp: load_block_def split: option.splits obj.splits)
  note d = deref_prefix [OF Cons.prems(1) d0] and arr = deref_prefix [OF Cons.prems(1) arr0]
  from wallet_transactions_value [OF Cons.prems(1-4) txs, of a]
  obtain ys s' where
    w: "wallet_transactions a (length s0) rs s = (Inr (), s')" and
    1: "take (length s0) s' = s0" and 2: "length s' = Suc (length s0)" and
    3: "s' ! length s0 = ArrayObj ys" and
    4: "load_transactions s0 ys
          = Some (foldl (\<lambda>txs tx. if sender tx = a \<or> Some (recipient tx) = a
                                   then txs @ [tx] else txs) accl (transactions blk))"
    by blast
  from Cons.IH [OF 1 2 3 4 r] d arr w l show ?case
    by simp
qed

lemma getAllTransactionForWallet_store_value:
  assumes "load_ledger s this = Some bc"
  shows "\<exists>ys s'. getAllTransactionForWallet_store a this s = (Inr (length s), s')
           \<and> deref s' (length s) = Some (ArrayObj ys)
           \<and> load_transactions s' ys = Some (getAllTransactionForWallet a bc)"
proof -
  from assms obtain c d p m bs where
    l: "deref s this = Some (BlockchainObj c d p m)" and
    arr: "deref s c = Some (ArrayObj bs)" and
    blocks: "load_blocks s bs = Some (chain bc)"
    by (auto simp: load_ledger_def split: option.splits obj.splits)
  let ?s1 = "s @ [ArrayObj []]"
  have 1: "take (length s) ?s1 = s" by simp
  have 2: "length ?s1 = Suc (length s)" by simp
  have 3: "?s1 ! length s = ArrayObj []" by simp
  have 4: "load_transactions s [] = Some []" by simp
  from wallet_blocks_value [OF 1 2 3 4 blocks, of a]
  obtain ys s' where
    w: "wallet_blocks a (length s) bs ?s1 = (Inr (), s')" and
    pre: "take (length s) s' = s" and len: "length s' = Suc (length s)" and
    cur: "s' ! length s = ArrayObj ys" and
    val: "load_transactions s ys = Some (getAllTransactionForWallet a bc)"
    by (auto simp: getAllTransactionForWallet_def)
  have run: "getAllTransactionForWallet_store a this s = (Inr (length s), s')"
    using deref_prefix [OF 1 l] deref_prefix [OF 1 arr] w
    by (simp add: getAllTransactionForWallet_store_def Let_def)
  have dr: "deref s' (length s) = Some (ArrayObj ys)"
    using len cur by (simp add: deref_def)
  from run dr load_transactions_prefix [OF pre val] show ?thesis
    by blast
qed

text \<open>A store that holds the ledger after the first mining of the scenario below.\<close>

lemma load_ledger_example:
  "load_ledger
     [BlockchainObj 1 4 2 100,
      ArrayObj [4, 6],
      ArrayObj [],
      ArrayObj [],
      BlockObj Undefined ''0'' 3 1000 (Some ''55555555'') (Num 1),
      ArrayObj [7],
      BlockObj Undefined ''55555555'' 5 1003 (Some ''11111111'') (Num 3),
      TransactionObj (new_Transaction None ''04ab'' 100 1002)] 0
   = Some \<lparr>chain =
             [\<lparr>index = Undefined, previousHash = ''0'', transactions = [], timestamp = 1000,
               hash = Some ''55555555'', nonce = Num 1\<rparr>,
              \<lparr>index = Undefined, previousHash = ''55555555'',
               transactions = [new_Transaction None ''04ab'' 100 1002], timestamp = 1003,
               hash = Some ''11111111'', nonce = Num 3\<rparr>],
            difficulty = 4, pendingTransactions = [], mineReward = 100\<rparr>"
  by (simp add: load_ledger_def load_block_def deref_def)

subsection \<open>Admission\<close>

text \<open>
  Whenever \<open>isValid\<close> returns, the three gates do what is claimed: a transaction that
  is invalid, or whose amount is not positive, or whose amount exceeds the sender's
  balance, leaves the ledger as it was and nothing is raised; any other transaction
  becomes the last pending one and nothing else changes.
\<close>

lemma addTransaction_when_isValid_returns:
  "isValid cr tx = Inr v \<Longrightarrow>
   addTransaction cr tx bc
     = (if \<not> v \<or> amount tx \<le> 0 \<or> getBalanceOfAddress (sender tx) bc < amount tx
        then Inr bc
        else Inr (bc\<lparr>pendingTransactions := pendingTransactions bc @ [tx]\<rparr>))"
  by (simp add: addTransaction_def)

text \<open>
  C7. Claim: a transaction that is invalid, or whose amount is not positive, or whose
  amount exceeds the balance makes \<open>addTransaction\<close> return without raising and leave
  the ledger as it was. \<open>addTransaction\<close> calls \<open>isValid\<close> first and catches nothing:
  whatever \<open>isValid\<close> raises leaves \<open>addTransaction\<close> as an exception, before the
  amount is looked at. A transaction that was never signed and has the amount \<open>-5\<close>
  makes \<open>isValid\<close> raise in the library (the fall-through of C3) and so
  \<open>addTransaction\<close> raise.
\<close>

theorem addTransaction_raises_what_isValid_raises:
  "isValid cr tx = Inl e \<Longrightarrow> addTransaction cr tx bc = Inl e"
  by (simp add: addTransaction_def)

theorem addTransaction_raises_what_isValid_raises_witness:
  "isValid demo (new_Transaction None ''address2'' (- 5) 1010)
     = Inl (TypeError ''Cannot read properties of undefined'')
   \<and> amount (new_Transaction None ''address2'' (- 5) 1010) \<le> 0
   \<and> addTransaction demo (new_Transaction None ''address2'' (- 5) 1010)
        (new_Blockchain demo 1000)
     = Inl (TypeError ''Cannot read properties of undefined'')"
proof -
  let ?tx = "new_Transaction None ''address2'' (- 5) 1010"
  have v: "isValid demo ?tx = Inl (TypeError ''Cannot read properties of undefined'')"
    by (simp add: isValid_def new_Transaction_def demo_def demo_verify_def demo_signature_def)
  have a: "amount ?tx \<le> 0"
    by (simp add: new_Transaction_def)
  from addTransaction_raises_what_isValid_raises [OF v, of "new_Blockchain demo 1000"] v a
  show ?thesis by simp
qed

subsection \<open>Mining the pending transactions\<close>

text \<open>
  C6. Claim: \<open>minePendingTransactions\<close> adds one reward to the pool, builds one block
  from the whole pool with \<open>previousHash\<close> the hash of the latest block and \<open>index\<close>
  one more than its index, mines it at the ledger's difficulty, appends it and empties
  the pool. On a ledger with a block in its chain, whenever some number \<open>k\<close> of passes
  of the search reaches the target, the call returns and all of that holds except for
  the index: the constructor of a block takes no index and none is ever assigned, so
  the new block has no \<open>index\<close>.
\<close>

theorem minePendingTransactions_block_has_no_index:
  assumes "chain bc \<noteq> []"
    and "meetsTarget (difficulty bc)
           (hash ((mineStep cr ^^ k)
              (new_Block cr (case hash (last (chain bc)) of None \<Rightarrow> [] | Some h \<Rightarrow> h)
                 (pendingTransactions bc @ [new_Transaction None a (mineReward bc) t1]) t2)))"
  shows "\<exists>mined.
           minePendingTransactions cr t1 t2 a bc
             = Some (Inr (bc\<lparr>chain := chain bc @ [mined], pendingTransactions := []\<rparr>))
           \<and> transactions mined
               = pendingTransactions bc @ [new_Transaction None a (mineReward bc) t1]
           \<and> previousHash mined = (case hash (last (chain bc)) of None \<Rightarrow> [] | Some h \<Rightarrow> h)
           \<and> meetsTarget (difficulty bc) (hash mined)
           \<and> index mined = Undefined"
proof -
  let ?blk = "new_Block cr (case hash (last (chain bc)) of None \<Rightarrow> [] | Some h \<Rightarrow> h)
                (pendingTransactions bc @ [new_Transaction None a (mineReward bc) t1]) t2"
  from mineBlock_ends [OF assms(2)] obtain j
    where j: "mineBlock cr (difficulty bc) ?blk = Some ((mineStep cr ^^ j) ?blk)"
    by blast
  let ?mined = "(mineStep cr ^^ j) ?blk"
  have run: "minePendingTransactions cr t1 t2 a bc
               = Some (Inr (bc\<lparr>chain := chain bc @ [?mined], pendingTransactions := []\<rparr>))"
    using assms(1) j by (simp add: minePendingTransactions_def getLatestBlock_def Let_def)
  have txs: "transactions ?mined
               = pendingTransactions bc @ [new_Transaction None a (mineReward bc) t1]"
    by (simp add: mineStep_frame) (simp add: new_Block_def)
  have prev: "previousHash ?mined = (case hash (last (chain bc)) of None \<Rightarrow> [] | Some h \<Rightarrow> h)"
    by (simp add: mineStep_frame) (simp add: new_Block_def)
  have idx: "index ?mined = Undefined"
    by (simp add: mineStep_frame) (simp add: new_Block_def)
  have tgt: "meetsTarget (difficulty bc) (hash ?mined)"
    using mineBlock_Some [OF j] by blast
  from run txs prev tgt idx show ?thesis by blast
qed

theorem minePendingTransactions_block_has_no_index_witness:
  "chain (new_Blockchain demo 1000) \<noteq> []
   \<and> meetsTarget (difficulty (new_Blockchain demo 1000))
        (hash ((mineStep demo ^^ Suc (Suc 0))
           (new_Block demo
              (case hash (last (chain (new_Blockchain demo 1000))) of None \<Rightarrow> [] | Some h \<Rightarrow> h)
              (pendingTransactions (new_Blockchain demo 1000)
                 @ [new_Transaction None ''04ab'' (mineReward (new_Blockchain demo 1000)) 1002])
              1003)))
   \<and> (\<exists>mined.
         minePendingTransactions demo 1002 1003 ''04ab'' (new_Blockchain demo 1000)
           = Some (Inr ((new_Blockchain demo 1000)
                          \<lparr>chain := chain (new_Blockchain demo 1000) @ [mined],
                            pendingTransactions := []\<rparr>))
         \<and> transactions mined = [new_Transaction None ''04ab'' 100 1002]
         \<and> previousHash mined = ''55555555''
         \<and> meetsTarget 4 (hash mined)
         \<and> index mined = Undefined)"
proof -
  let ?bc = "new_Blockchain demo 1000"
  have c: "chain ?bc \<noteq> []"
    by (simp add: new_Blockchain_def)
  have m: "meetsTarget (difficulty ?bc)
        (hash ((mineStep demo ^^ Suc (Suc 0))
           (new_Block demo
              (case hash (last (chain ?bc)) of None \<Rightarrow> [] | Some h \<Rightarrow> h)
              (pendingTransactions ?bc @ [new_Transaction None ''04ab'' (mineReward ?bc) 1002])
              1003)))"
    by (simp add: ledger_eval demo_eval)
  have g: "(case hash (last (chain ?bc)) of None \<Rightarrow> [] | Some h \<Rightarrow> h) = ''55555555''"
    by (simp add: ledger_eval demo_eval)
  have p: "pendingTransactions ?bc = []" "mineReward ?bc = 100" "difficulty ?bc = 4"
    by (simp_all add: new_Blockchain_def)
  from minePendingTransactions_block_has_no_index [OF c m]
  have "\<exists>mined.
         minePendingTransactions demo 1002 1003 ''04ab'' ?bc
           = Some (Inr (?bc\<lparr>chain := chain ?bc @ [mined], pendingTransactions := []\<rparr>))
         \<and> transactions mined = [new_Transaction None ''04ab'' 100 1002]
         \<and> previousHash mined = ''55555555''
         \<and> meetsTarget 4 (hash mined)
         \<and> index mined = Undefined"
    by (simp only: g p append_Nil)
  with c m show ?thesis by blast
qed

subsection \<open>Validation of the chain\<close>

text \<open>
  The genesis block that \<open>isChainValid\<close> builds for the comparison carries the
  clock reading of the call: whenever the clock differs from the timestamp of
  \<^verbatim>\<open>chain[0]\<close> the chain is reported invalid, whatever it holds.
\<close>

lemma isChainValid_clock:
  "chain bc = g # rest \<Longrightarrow> block.timestamp g \<noteq> now \<Longrightarrow> isChainValid cr now bc = Inr False"
  by (auto simp: isChainValid_def createGenesisBlock_def new_Block_def Let_def)

text \<open>
  C9. Claim: after the honest scenario (build the ledger, mine a reward of 100 to A,
  admit a correctly signed transfer of 100 from A to B, mine again) the balance of B is
  100 and \<open>isChainValid\<close> returns true. Run on the instance \<open>demo\<close> with the clock
  read at 1000, 1002, 1003, 1010, 1011 and 1012, the scenario ends with the balance of
  B at 100 (and that of A at 100), but \<open>isChainValid\<close> returns false when called at
  clock 1020, as at any clock other than 1000 (\<open>isChainValid_clock\<close>), and at clock
  1000 it raises on the unsigned reward of the second block.
\<close>

theorem honestScenario_chain_reported_invalid:
  "\<exists>bc. honestScenario demo ''ab'' ''address2'' 100 1000 1002 1003 1010 1011 1012 = Some (Inr bc)
        \<and> getBalanceOfAddress (Some ''address2'') bc = 100
        \<and> getBalanceOfAddress (Some ''04ab'') bc = 100
        \<and> isChainValid demo 1020 bc = Inr False
        \<and> isChainValid demo 1000 bc = Inl (TypeError ''Cannot read properties of undefined'')"
proof -
  let ?g = "\<lparr>index = Undefined, previousHash = ''0'', transactions = [], timestamp = 1000,
             hash = Some ''55555555'', nonce = Num 1\<rparr>"
  let ?r1 = "\<lparr>sender = None, recipient = ''04ab'', amount = 100, transaction.timestamp = 1002,
              signature = NoSignature\<rparr>"
  let ?b1 = "\<lparr>index = Undefined, previousHash = ''55555555'', transactions = [?r1],
              timestamp = 1003, hash = Some ''11111111'', nonce = Num 3\<rparr>"
  let ?tx1 = "\<lparr>sender = Some ''04ab'', recipient = ''address2'', amount = 100,
               transaction.timestamp = 1010, signature = Signature ''30ab22222222''\<rparr>"
  let ?r2 = "\<lparr>sender = None, recipient = ''04ab'', amount = 100, transaction.timestamp = 1011,
              signature = NoSignature\<rparr>"
  let ?b2 = "\<lparr>index = Undefined, previousHash = ''11111111'', transactions = [?tx1, ?r2],
              timestamp = 1012, hash = Some ''11111111'', nonce = Num 3\<rparr>"
  let ?bc1 = "\<lparr>chain = [?g, ?b1], difficulty = 4, pendingTransactions = [], mineReward = 100\<rparr>"
  let ?bc2 = "\<lparr>chain = [?g, ?b1], difficulty = 4, pendingTransactions = [?tx1],
               mineReward = 100\<rparr>"
  let ?bc3 = "\<lparr>chain = [?g, ?b1, ?b2], difficulty = 4, pendingTransactions = [],
               mineReward = 100\<rparr>"
  have k: "getPublic demo ''ab'' = ''04ab''"
    by (simp add: demo_def)
  have s1: "minePendingTransactions demo 1002 1003 ''04ab'' (new_Blockchain demo 1000)
              = Some (Inr ?bc1)"
    by (simp add: ledger_eval demo_eval)
  have s2: "signTransaction demo ''ab'' (new_Transaction (Some ''04ab'') ''address2'' 100 1010)
              = (Inr (), ?tx1)"
    by (simp add: signTransaction_def new_Transaction_def tx_calculateHash_def demo_eval)
  have s3: "addTransaction demo ?tx1 ?bc1 = Inr ?bc2"
    by (simp add: addTransaction_def isValid_def tx_calculateHash_def getBalanceOfAddress_def
        balance_eval demo_eval)
  have s4: "minePendingTransactions demo 1011 1012 ''04ab'' ?bc2 = Some (Inr ?bc3)"
    by (simp add: ledger_eval demo_eval)
  have run: "honestScenario demo ''ab'' ''address2'' 100 1000 1002 1003 1010 1011 1012
               = Some (Inr ?bc3)"
    by (simp add: honestScenario_def k s1 s2 s3 s4 Let_def)
  have b1: "getBalanceOfAddress (Some ''address2'') ?bc3 = 100"
    by (simp add: getBalanceOfAddress_def balance_eval)
  have b2: "getBalanceOfAddress (Some ''04ab'') ?bc3 = 100"
    by (simp add: getBalanceOfAddress_def balance_eval)
  have v1: "isChainValid demo 1020 ?bc3 = Inr False"
    by (simp add: isChainValid_def createGenesisBlock_def new_Block_def Let_def)
  have g: "createGenesisBlock demo 1000 = ?g"
    by (simp add: createGenesisBlock_def new_Block_def block_calculateHash_def demo_eval)
  have v2: "isChainValid demo 1000 ?bc3
              = Inl (TypeError ''Cannot read properties of undefined'')"
  proof -
    have vd: "verify demo = demo_verify"
      by (simp add: demo_def)
    show ?thesis
      by (simp add: isChainValid_def g hasValidTransactions_def isValid_def vd
          demo_verify_def demo_signature_def)
  qed
  from run b1 b2 v1 v2 show ?thesis by blast
qed

end
